theory Spec2Isabelle
  imports Main "HOL-Library.Word"
begin

section \<open>JavaScript strings\<close>

text \<open>
  A JavaScript string is a sequence of 16-bit UTF-16 code units; \<open>text.length\<close> is the
  number of code units, and a regular expression without the \<open>u\<close> flag (none of the
  expressions of \<open>App.vue\<close> has it) matches code unit by code unit. A code point below
  U+10000 is one code unit; a supplementary-plane code point is a surrogate pair.
\<close>

type_synonym code_unit = "16 word"
type_synonym js_string = "code_unit list"

definition utf16_units :: "nat \<Rightarrow> js_string" where
  "utf16_units cp =
     (if cp < 0x10000 then [of_nat cp]
      else [of_nat (0xD800 + (cp - 0x10000) div 0x400),
            of_nat (0xDC00 + (cp - 0x10000) mod 0x400)])"

definition utf16 :: "nat list \<Rightarrow> js_string" where
  "utf16 cps = concat (map utf16_units cps)"

section \<open>Regular expressions of the statistics\<close>

text \<open>
  Every expression of \<open>stats\<close> is a character class, once followed by \<open>+\<close>. A class is a
  list of atoms: single code units and ranges of code units.
\<close>

datatype class_atom = Single code_unit | Range code_unit code_unit

fun atom_matches :: "class_atom \<Rightarrow> code_unit \<Rightarrow> bool" where
  "atom_matches (Single a) c = (c = a)"
| "atom_matches (Range lo hi) c = (lo \<le> c \<and> c \<le> hi)"

fun class_matches :: "class_atom list \<Rightarrow> code_unit \<Rightarrow> bool" where
  "class_matches [] c = False"
| "class_matches (a # as) c = (atom_matches a c \<or> class_matches as c)"

text \<open>
  \<open>text.match(/[...]/g)\<close>: the array of all matches of a one-character class, each match
  a string of one code unit, or \<open>null\<close> when nothing matches.
\<close>

definition match_g :: "class_atom list \<Rightarrow> js_string \<Rightarrow> js_string list option" where
  "match_g cls text =
     (let ms = map (\<lambda>c. [c]) (filter (class_matches cls) text)
      in if ms = [] then None else Some ms)"

text \<open>
  \<open>text.match(/[...]+/g)\<close>: the scan skips code units outside the class; at a code unit of
  the class the greedy \<open>+\<close> takes the whole run, and the scan goes on after the run.
\<close>

function scan_plus :: "class_atom list \<Rightarrow> js_string \<Rightarrow> js_string list" where
  "scan_plus cls [] = []"
| "scan_plus cls (c # cs) =
     (if class_matches cls c
      then (c # takeWhile (class_matches cls) cs) # scan_plus cls (dropWhile (class_matches cls) cs)
      else scan_plus cls cs)"
  by pat_completeness auto
termination
  by (relation "measure (\<lambda>(cls, cs). length cs)")
     (auto simp: le_imp_less_Suc length_dropWhile_le)

definition match_plus_g :: "class_atom list \<Rightarrow> js_string \<Rightarrow> js_string list option" where
  "match_plus_g cls text =
     (let ms = scan_plus cls text in if ms = [] then None else Some ms)"

text \<open>\<open>m || []\<close> for the result of \<open>match\<close>: an array, also an empty one, is truthy.\<close>

definition or_empty :: "js_string list option \<Rightarrow> js_string list" where
  "or_empty m = (case m of None \<Rightarrow> [] | Some ms \<Rightarrow> ms)"

text \<open>\<open>text.replace(/[...]/g, '')\<close>: every code unit of the class is removed.\<close>

definition replace_g_empty :: "class_atom list \<Rightarrow> js_string \<Rightarrow> js_string" where
  "replace_g_empty cls text = filter (\<lambda>c. \<not> class_matches cls c) text"

subsection \<open>The classes as the regular-expression parser reads them\<close>

text \<open>
  Without the \<open>u\<close> flag the escape \<^verbatim>\<open>\u\<close> takes exactly four hexadecimal digits. The
  source text of the first class is

  \<^verbatim>\<open>[\u4e00-\u9fff\u3400-\u4dbf\u20000-\u2a6df\u2a700-\u2b73f\u2b740-\u2b81f\u2b820-\u2ceaf\uf900-\ufaff\u2f800-\u2fa1f]\<close>

  so \<^verbatim>\<open>\u20000-\u2a6df\<close> is the code unit U+2000, the range from the digit \<open>0\<close>
  (U+0030) to U+2A6D, and the letter \<open>f\<close> (U+0066); the other five-digit escapes are read
  alike.
\<close>

definition chineseChars_class :: "class_atom list" where
  "chineseChars_class =
     [Range 0x4E00 0x9FFF, Range 0x3400 0x4DBF,
      Single 0x2000, Range 0x0030 0x2A6D, Single 0x0066,
      Single 0x2A70, Range 0x0030 0x2B73, Single 0x0066,
      Single 0x2B74, Range 0x0030 0x2B81, Single 0x0066,
      Single 0x2B82, Range 0x0030 0x2CEA, Single 0x0066,
      Range 0xF900 0xFAFF,
      Single 0x2F80, Range 0x0030 0x2FA1, Single 0x0066]"

text \<open>\<^verbatim>\<open>[a-zA-Z]\<close> and \<^verbatim>\<open>[0-9]\<close>.\<close>

definition englishLetters_class :: "class_atom list" where
  "englishLetters_class = [Range 0x0061 0x007A, Range 0x0041 0x005A]"

definition numbers_class :: "class_atom list" where
  "numbers_class = [Range 0x0030 0x0039]"

text \<open>
  The class of Chinese punctuation, in the order of the source: fullwidth comma U+FF0C,
  ideographic full stop U+3002, fullwidth \<open>!\<close> U+FF01, fullwidth \<open>?\<close> U+FF1F, ideographic comma
  U+3001, fullwidth \<open>;\<close> U+FF1B, fullwidth \<open>:\<close> U+FF1A, then the ASCII quotation mark U+0022
  twice and the ASCII apostrophe U+0027 twice, fullwidth parentheses U+FF08 U+FF09, lenticular
  brackets U+3010 U+3011, double angle brackets U+300A U+300B, horizontal ellipsis U+2026, em
  dash U+2014, fullwidth tilde U+FF5E, middle dot U+00B7.
\<close>

definition chinesePunctuation_class :: "class_atom list" where
  "chinesePunctuation_class =
     [Single 0xFF0C, Single 0x3002, Single 0xFF01, Single 0xFF1F, Single 0x3001,
      Single 0xFF1B, Single 0xFF1A, Single 0x0022, Single 0x0022, Single 0x0027,
      Single 0x0027, Single 0xFF08, Single 0xFF09, Single 0x3010, Single 0x3011,
      Single 0x300A, Single 0x300B, Single 0x2026, Single 0x2014, Single 0xFF5E,
      Single 0x00B7]"

text \<open>
  The class of English punctuation,
  \<^verbatim>\<open>[,.!?;:'"()\[\]{}<>\/\\@#$%^&*\-_+=|`~]\<close>:
  the escapes \<^verbatim>\<open>\[ \] \/ \\ \-\<close> stand for the escaped character itself.
\<close>

definition englishPunctuation_class :: "class_atom list" where
  "englishPunctuation_class =
     [Single 0x002C, Single 0x002E, Single 0x0021, Single 0x003F, Single 0x003B,
      Single 0x003A, Single 0x0027, Single 0x0022, Single 0x0028, Single 0x0029,
      Single 0x005B, Single 0x005D, Single 0x007B, Single 0x007D, Single 0x003C,
      Single 0x003E, Single 0x002F, Single 0x005C, Single 0x0040, Single 0x0023,
      Single 0x0024, Single 0x0025, Single 0x005E, Single 0x0026, Single 0x002A,
      Single 0x002D, Single 0x005F, Single 0x002B, Single 0x003D, Single 0x007C,
      Single 0x0060, Single 0x007E]"

text \<open>
  \<^verbatim>\<open>\s\<close> is the white space and the line terminators of ECMAScript: tab, line feed,
  vertical tab, form feed, carriage return, space, no-break space, U+1680, U+2000 to U+200A,
  line and paragraph separator U+2028 U+2029, U+202F, U+205F, U+3000 and the byte order mark
  U+FEFF. \<^verbatim>\<open>\n\<close> is the line feed U+000A.
\<close>

definition spaces_class :: "class_atom list" where
  "spaces_class =
     [Range 0x0009 0x000D, Single 0x0020, Single 0x00A0, Single 0x1680,
      Range 0x2000 0x200A, Single 0x2028, Single 0x2029, Single 0x202F,
      Single 0x205F, Single 0x3000, Single 0xFEFF]"

definition lineBreaks_class :: "class_atom list" where
  "lineBreaks_class = [Single 0x000A]"

section \<open>The statistics\<close>

record StatsResult =
  chineseChars :: nat
  englishWords :: nat
  englishLetters :: nat
  numbers :: nat
  chinesePunctuation :: nat
  englishPunctuation :: nat
  spaces :: nat
  lineBreaks :: nat
  totalChars :: nat
  totalCharsNoSpace :: nat

text \<open>
  The computed property \<open>stats\<close> as a function of \<open>pdfText.value\<close>. \<open>!pdfText.value\<close> holds
  exactly for the empty string, and \<open>null\<close> is \<open>None\<close>.
\<close>

definition stats :: "js_string \<Rightarrow> StatsResult option" where
  "stats pdfText_value =
     (if pdfText_value = [] then None
      else
        let text = pdfText_value;
            chineseChars' = or_empty (match_g chineseChars_class text);
            englishWords' = or_empty (match_plus_g englishLetters_class text);
            englishLetters' = or_empty (match_g englishLetters_class text);
            numbers' = or_empty (match_g numbers_class text);
            chinesePunctuation' = or_empty (match_g chinesePunctuation_class text);
            englishPunctuation' = or_empty (match_g englishPunctuation_class text);
            spaces' = or_empty (match_g spaces_class text);
            lineBreaks' = or_empty (match_g lineBreaks_class text);
            totalCharsNoSpace' = length (replace_g_empty spaces_class text)
        in Some \<lparr>chineseChars = length chineseChars',
                 englishWords = length englishWords',
                 englishLetters = length englishLetters',
                 numbers = length numbers',
                 chinesePunctuation = length chinesePunctuation',
                 englishPunctuation = length englishPunctuation',
                 spaces = length spaces',
                 lineBreaks = length lineBreaks',
                 totalChars = length text,
                 totalCharsNoSpace = totalCharsNoSpace'\<rparr>)"

section \<open>Loading a file\<close>

text \<open>The reactive state of the component: one field for each \<open>ref\<close>.\<close>

record app_state =
  isDragging :: bool
  isLoading :: bool
  fileName :: js_string
  pdfText :: js_string
  errorMessage :: js_string

text \<open>
  A \<open>File\<close> has a MIME type and a name. What pdf.js makes of its bytes is outside the
  component: either a failure (\<open>getDocument\<close>, \<open>getPage\<close> or \<open>getTextContent\<close> throws) or the
  text content of the pages \<open>1 .. numPages\<close>, each a list of items of which only a \<open>TextItem\<close>
  has the property \<open>str\<close>.
\<close>

datatype content_item = TextItem js_string | TextMarkedContent

record File =
  file_type :: js_string
  file_name :: js_string

datatype pdfjs_error = PdfjsError

type_synonym pdfjs_result = "pdfjs_error + content_item list list"

text \<open>\<open>items.filter(item => 'str' in item).map(item => item.str).join('')\<close>\<close>

fun has_str :: "content_item \<Rightarrow> bool" where
  "has_str (TextItem s) = True"
| "has_str TextMarkedContent = False"

fun str :: "content_item \<Rightarrow> js_string" where
  "str (TextItem s) = s"
| "str TextMarkedContent = []"

definition pageText :: "content_item list \<Rightarrow> js_string" where
  "pageText items = concat (map str (filter has_str items))"

text \<open>
  The loop \<open>for (let i = 1; i <= pdf.numPages; i++) { ... fullText += pageText + '\n' }\<close>
  over the pages that are left, with the text accumulated so far.
\<close>

fun page_loop :: "js_string \<Rightarrow> content_item list list \<Rightarrow> js_string" where
  "page_loop fullText [] = fullText"
| "page_loop fullText (items # pages) = page_loop (fullText @ (pageText items @ [0x000A])) pages"

text \<open>The three string literals of \<open>handleFile\<close>, as code units.\<close>

definition application_pdf :: js_string where
  "application_pdf =
     [0x0061, 0x0070, 0x0070, 0x006C, 0x0069, 0x0063, 0x0061, 0x0074, 0x0069, 0x006F,
      0x006E, 0x002F, 0x0070, 0x0064, 0x0066]"

definition please_upload_pdf :: js_string where
  "please_upload_pdf =
     [0x8BF7, 0x4E0A, 0x4F20, 0x0020, 0x0050, 0x0044, 0x0046, 0x0020, 0x6587, 0x4EF6]"

definition pdf_parse_failed :: js_string where
  "pdf_parse_failed =
     [0x0050, 0x0044, 0x0046, 0x0020, 0x89E3, 0x6790, 0x5931, 0x8D25, 0xFF0C, 0x8BF7,
      0x786E, 0x4FDD, 0x6587, 0x4EF6, 0x672A, 0x635F, 0x574F]"

text \<open>
  \<open>handleFile\<close>: the state when the promise settles. The argument may be missing
  (\<open>!file\<close>), so it is an option; the second argument is what pdf.js returns for the file.
\<close>

definition handleFile :: "File option \<Rightarrow> pdfjs_result \<Rightarrow> app_state \<Rightarrow> app_state" where
  "handleFile f pdfjs s =
     (case f of
        None \<Rightarrow> s\<lparr>errorMessage := please_upload_pdf\<rparr>
      | Some fl \<Rightarrow>
          if file_type fl \<noteq> application_pdf then s\<lparr>errorMessage := please_upload_pdf\<rparr>
          else
            let s1 = s\<lparr>errorMessage := [], isLoading := True,
                       fileName := file_name fl, pdfText := []\<rparr>;
                s2 = (case pdfjs of
                        Inl e \<Rightarrow> s1\<lparr>errorMessage := pdf_parse_failed\<rparr>
                      | Inr pages \<Rightarrow> s1\<lparr>pdfText := page_loop [] pages\<rparr>)
            in s2\<lparr>isLoading := False\<rparr>)"

text \<open>\<open>reset\<close>\<close>

definition reset :: "app_state \<Rightarrow> app_state" where
  "reset s = s\<lparr>fileName := [], pdfText := [], errorMessage := []\<rparr>"

section \<open>The categories in the words of the specification\<close>

text \<open>
  The ideographs as the specification lists them: eight closed intervals of code points.
\<close>

definition spec_ideograph :: "nat \<Rightarrow> bool" where
  "spec_ideograph cp =
     ((0x4E00 \<le> cp \<and> cp \<le> 0x9FFF) \<or> (0x3400 \<le> cp \<and> cp \<le> 0x4DBF) \<or>
      (0x20000 \<le> cp \<and> cp \<le> 0x2A6DF) \<or> (0x2A700 \<le> cp \<and> cp \<le> 0x2B73F) \<or>
      (0x2B740 \<le> cp \<and> cp \<le> 0x2B81F) \<or> (0x2B820 \<le> cp \<and> cp \<le> 0x2CEAF) \<or>
      (0xF900 \<le> cp \<and> cp \<le> 0xFAFF) \<or> (0x2F800 \<le> cp \<and> cp \<le> 0x2FA1F))"

text \<open>
  The Chinese punctuation with the curly quotation marks U+201C U+201D U+2018 U+2019 in the
  place of the quotes, and the Chinese punctuation that the class of the source holds, with
  the ASCII quotes U+0022 and U+0027.
\<close>

definition spec_chinese_punctuation :: "code_unit list" where
  "spec_chinese_punctuation =
     [0xFF0C, 0x3002, 0xFF01, 0xFF1F, 0x3001, 0xFF1B, 0xFF1A, 0x201C, 0x201D, 0x2018,
      0x2019, 0xFF08, 0xFF09, 0x3010, 0x3011, 0x300A, 0x300B, 0x2026, 0x2014, 0xFF5E,
      0x00B7]"

definition chinese_punctuation_units :: "code_unit list" where
  "chinese_punctuation_units =
     [0xFF0C, 0x3002, 0xFF01, 0xFF1F, 0x3001, 0xFF1B, 0xFF1A, 0x0022, 0x0027,
      0xFF08, 0xFF09, 0x3010, 0x3011, 0x300A, 0x300B, 0x2026, 0x2014, 0xFF5E, 0x00B7]"

text \<open>
  The 32 ASCII punctuation characters of the specification, in its order: comma, full stop,
  \<open>!\<close>, \<open>?\<close>, \<open>;\<close>, \<open>:\<close>, apostrophe, quotation mark, the four pairs of brackets, slash,
  backslash, \<open>@\<close>, \<open>#\<close>, \<open>$\<close>, \<open>%\<close>, \<open>^\<close>, \<open>&\<close>, \<open>*\<close>, \<open>-\<close>, \<open>_\<close>, \<open>+\<close>, \<open>=\<close>, \<open>|\<close>, grave accent,
  \<open>~\<close>.
\<close>

definition english_punctuation_units :: "code_unit list" where
  "english_punctuation_units =
     [0x2C, 0x2E, 0x21, 0x3F, 0x3B, 0x3A, 0x27, 0x22, 0x28, 0x29, 0x5B, 0x5D, 0x7B, 0x7D,
      0x3C, 0x3E, 0x2F, 0x5C, 0x40, 0x23, 0x24, 0x25, 0x5E, 0x26, 0x2A, 0x2D, 0x5F, 0x2B,
      0x3D, 0x7C, 0x60, 0x7E]"

text \<open>
  The number of maximal runs of code units of a class: a run starts at every code unit of
  the class whose predecessor is not in the class (or that is the first of the text).
  \<open>prev\<close> tells whether the predecessor is in the class.
\<close>

fun count_runs :: "class_atom list \<Rightarrow> bool \<Rightarrow> js_string \<Rightarrow> nat" where
  "count_runs cls prev [] = 0"
| "count_runs cls prev (c # cs) =
     (if class_matches cls c \<and> \<not> prev then 1 else 0) + count_runs cls (class_matches cls c) cs"

text \<open>The text \<open>Hello\<close>, space, U+4E16 U+754C, comma, space, \<open>123!\<close> of the scenario.\<close>

definition hello_text :: js_string where
  "hello_text =
     [0x0048, 0x0065, 0x006C, 0x006C, 0x006F, 0x0020, 0x4E16, 0x754C, 0x002C, 0x0020,
      0x0031, 0x0032, 0x0033, 0x0021]"

section \<open>Evaluating the statistics\<close>

lemma or_empty_match_g:
  "or_empty (match_g cls t) = map (\<lambda>c. [c]) (filter (class_matches cls) t)"
  by (simp add: or_empty_def match_g_def Let_def)

lemma or_empty_match_plus_g: "or_empty (match_plus_g cls t) = scan_plus cls t"
  by (simp add: or_empty_def match_plus_g_def Let_def)

lemma stats_nonempty:
  "t \<noteq> [] \<Longrightarrow>
   stats t = Some \<lparr>chineseChars = length (filter (class_matches chineseChars_class) t),
                   englishWords = length (scan_plus englishLetters_class t),
                   englishLetters = length (filter (class_matches englishLetters_class) t),
                   numbers = length (filter (class_matches numbers_class) t),
                   chinesePunctuation = length (filter (class_matches chinesePunctuation_class) t),
                   englishPunctuation = length (filter (class_matches englishPunctuation_class) t),
                   spaces = length (filter (class_matches spaces_class) t),
                   lineBreaks = length (filter (class_matches lineBreaks_class) t),
                   totalChars = length t,
                   totalCharsNoSpace = length (replace_g_empty spaces_class t)\<rparr>"
  by (simp add: stats_def Let_def or_empty_match_g or_empty_match_plus_g)

lemma stats_SomeD:
  assumes "stats t = Some r"
  shows "t \<noteq> []"
    and "chineseChars r = length (filter (class_matches chineseChars_class) t)"
    and "englishWords r = length (scan_plus englishLetters_class t)"
    and "englishLetters r = length (filter (class_matches englishLetters_class) t)"
    and "numbers r = length (filter (class_matches numbers_class) t)"
    and "chinesePunctuation r = length (filter (class_matches chinesePunctuation_class) t)"
    and "englishPunctuation r = length (filter (class_matches englishPunctuation_class) t)"
    and "spaces r = length (filter (class_matches spaces_class) t)"
    and "lineBreaks r = length (filter (class_matches lineBreaks_class) t)"
    and "totalChars r = length t"
    and "totalCharsNoSpace r = length (replace_g_empty spaces_class t)"
proof -
  show ne: "t \<noteq> []" using assms by (auto simp: stats_def)
  from stats_nonempty [OF ne] assms
  have r: "r = \<lparr>chineseChars = length (filter (class_matches chineseChars_class) t),
                   englishWords = length (scan_plus englishLetters_class t),
                   englishLetters = length (filter (class_matches englishLetters_class) t),
                   numbers = length (filter (class_matches numbers_class) t),
                   chinesePunctuation = length (filter (class_matches chinesePunctuation_class) t),
                   englishPunctuation = length (filter (class_matches englishPunctuation_class) t),
                   spaces = length (filter (class_matches spaces_class) t),
                   lineBreaks = length (filter (class_matches lineBreaks_class) t),
                   totalChars = length t,
                   totalCharsNoSpace = length (replace_g_empty spaces_class t)\<rparr>"
    by simp
  show "chineseChars r = length (filter (class_matches chineseChars_class) t)"
    and "englishWords r = length (scan_plus englishLetters_class t)"
    and "englishLetters r = length (filter (class_matches englishLetters_class) t)"
    and "numbers r = length (filter (class_matches numbers_class) t)"
    and "chinesePunctuation r = length (filter (class_matches chinesePunctuation_class) t)"
    and "englishPunctuation r = length (filter (class_matches englishPunctuation_class) t)"
    and "spaces r = length (filter (class_matches spaces_class) t)"
    and "lineBreaks r = length (filter (class_matches lineBreaks_class) t)"
    and "totalChars r = length t"
    and "totalCharsNoSpace r = length (replace_g_empty spaces_class t)"
    by (simp_all add: r)
qed

lemmas class_defs =
  chineseChars_class_def englishLetters_class_def numbers_class_def
  chinesePunctuation_class_def englishPunctuation_class_def spaces_class_def
  lineBreaks_class_def replace_g_empty_def

lemma filter_takeWhile_same: "filter P (takeWhile P xs) = takeWhile P xs"
  by (induction xs) auto

lemma filter_split_run:
  "filter P xs = takeWhile P xs @ filter P (dropWhile P xs)"
proof -
  have "filter P xs = filter P (takeWhile P xs @ dropWhile P xs)" by simp
  also have "\<dots> = takeWhile P xs @ filter P (dropWhile P xs)"
    by (simp only: filter_append filter_takeWhile_same)
  finally show ?thesis .
qed

lemma scan_plus_concat: "concat (scan_plus cls t) = filter (class_matches cls) t"
proof (induction cls t rule: scan_plus.induct)
  case (1 cls)
  show ?case by simp
next
  case (2 cls c cs)
  show ?case
  proof (cases "class_matches cls c")
    case True
    with 2 filter_split_run [of "class_matches cls" cs] show ?thesis by simp
  next
    case False
    with 2 show ?thesis by simp
  qed
qed

lemma scan_plus_nonempty: "w \<in> set (scan_plus cls t) \<Longrightarrow> 1 \<le> length w"
  by (induction cls t rule: scan_plus.induct) (auto split: if_splits)

lemma scan_plus_in_class: "w \<in> set (scan_plus cls t) \<Longrightarrow> c \<in> set w \<Longrightarrow> class_matches cls c"
  by (induction cls t rule: scan_plus.induct) (auto split: if_splits dest: set_takeWhileD)

lemma count_runs_after_match:
  "count_runs cls True cs = count_runs cls False (dropWhile (class_matches cls) cs)"
  by (induction cs) auto

lemma count_runs_no_match:
  "\<not> class_matches cls c \<Longrightarrow> count_runs cls b (c # cs) = count_runs cls False cs"
  by simp

lemma scan_plus_count_runs: "length (scan_plus cls t) = count_runs cls False t"
proof (induction cls t rule: scan_plus.induct)
  case (1 cls)
  show ?case by simp
next
  case (2 cls c cs)
  show ?case
  proof (cases "class_matches cls c")
    case True
    with 2 show ?thesis by (simp add: count_runs_after_match)
  next
    case False
    with 2 show ?thesis by simp
  qed
qed

lemma length_le_sum_list:
  fixes ns :: "nat list"
  shows "\<forall>n\<in>set ns. 1 \<le> n \<Longrightarrow>
         length ns \<le> sum_list ns \<and> ((length ns = sum_list ns) = (\<forall>n\<in>set ns. n = 1))"
proof (induction ns)
  case Nil
  show ?case by simp
next
  case (Cons a ns)
  have a: "1 \<le> a" using Cons.prems by simp
  have le: "length ns \<le> sum_list ns"
    and eq: "(length ns = sum_list ns) = (\<forall>n\<in>set ns. n = 1)"
    using Cons.IH Cons.prems by simp_all
  show ?case using a le eq by auto
qed

lemma sum_list_length_concat: "sum_list (map length xss) = length (concat xss)"
  by (induction xss) auto

lemma words_le_letters:
  "length (scan_plus cls t) \<le> length (filter (class_matches cls) t) \<and>
   ((length (scan_plus cls t) = length (filter (class_matches cls) t)) =
    (\<forall>w\<in>set (scan_plus cls t). length w = 1))"
proof -
  let ?ns = "map length (scan_plus cls t)"
  have pos: "\<forall>n\<in>set ?ns. 1 \<le> n" by (auto dest: scan_plus_nonempty)
  have s: "sum_list ?ns = length (filter (class_matches cls) t)"
    by (simp only: sum_list_length_concat scan_plus_concat)
  from length_le_sum_list [OF pos] s show ?thesis by simp
qed

lemma page_loop_acc:
  "page_loop fullText pages = fullText @ concat (map (\<lambda>items. pageText items @ [0x000A]) pages)"
  by (induction pages arbitrary: fullText) simp_all

lemma class_matches_Single: "class_matches (map Single us) c = (c \<in> set us)"
  by (induction us) auto

lemma length_filter_complement:
  "length (filter (\<lambda>x. \<not> P x) xs) + length (filter P xs) = length xs"
  by (induction xs) auto

lemma utf16_length: "length (utf16 cps) = length cps + length (filter (\<lambda>cp. 0x10000 \<le> cp) cps)"
  by (induction cps) (auto simp: utf16_def utf16_units_def)

lemma line_feed_is_space: "class_matches lineBreaks_class c \<Longrightarrow> class_matches spaces_class c"
  by (simp add: lineBreaks_class_def spaces_class_def)

lemma chineseChars_class_units:
  "class_matches chineseChars_class c =
   ((0x0030 \<le> c \<and> c \<le> 0x2FA1) \<or> (0x3400 \<le> c \<and> c \<le> 0x4DBF) \<or>
    (0x4E00 \<le> c \<and> c \<le> 0x9FFF) \<or> (0xF900 \<le> c \<and> c \<le> 0xFAFF))"
  unfolding chineseChars_class_def class_matches.simps atom_matches.simps
  by (auto simp: word_le_nat_alt)

lemma chinesePunctuation_class_units:
  "class_matches chinesePunctuation_class c = (c \<in> set chinese_punctuation_units)"
  unfolding chinesePunctuation_class_def chinese_punctuation_units_def
  by (simp only: class_matches.simps atom_matches.simps list.set insert_iff empty_iff) blast

lemma englishPunctuation_class_units:
  "class_matches englishPunctuation_class c = (c \<in> set english_punctuation_units)"
  unfolding englishPunctuation_class_def english_punctuation_units_def
  by (simp only: class_matches.simps atom_matches.simps list.set insert_iff empty_iff)

lemma lineBreaks_class_unit: "class_matches lineBreaks_class c = (c = 0x000A)"
  by (simp add: lineBreaks_class_def)

lemma length_filter_mono:
  "(\<And>x. P x \<Longrightarrow> Q x) \<Longrightarrow> length (filter P xs) \<le> length (filter Q xs)"
  by (induction xs) auto

lemma stats_hello_text:
  "stats hello_text =
     Some \<lparr>chineseChars = 10, englishWords = 1, englishLetters = 5, numbers = 3,
           chinesePunctuation = 0, englishPunctuation = 2, spaces = 2, lineBreaks = 0,
           totalChars = 14, totalCharsNoSpace = 12\<rparr>"
  by (simp add: hello_text_def stats_nonempty class_defs)

lemma handleFile_pdf_loaded:
  "file_type f = application_pdf \<Longrightarrow>
   handleFile (Some f) (Inr pages) s =
     s\<lparr>errorMessage := [], isLoading := False, fileName := file_name f,
       pdfText := page_loop [] pages\<rparr>"
  by (simp add: handleFile_def Let_def)

lemma handleFile_pdf_failed:
  "file_type f = application_pdf \<Longrightarrow>
   handleFile (Some f) (Inl e) s =
     s\<lparr>errorMessage := pdf_parse_failed, isLoading := False, fileName := file_name f,
       pdfText := []\<rparr>"
  by (simp add: handleFile_def Let_def)

lemma line_terminators_le_spaces:
  "count_list t 0x000A + count_list t 0x000B + count_list t 0x000C + count_list t 0x000D +
   count_list t 0x2028 + count_list t 0x2029
   \<le> length (filter (class_matches spaces_class) t)"
  by (induction t) (simp_all add: spaces_class_def)

lemma lineBreaks_count_list:
  "length (filter (class_matches lineBreaks_class) t) = count_list t 0x000A"
proof -
  have "filter (class_matches lineBreaks_class) t = filter ((=) 0x000A) t"
    by (rule filter_cong) (auto simp: lineBreaks_class_unit)
  then show ?thesis by (simp add: count_list_eq_length_filter)
qed

lemma englishLetters_class_units:
  "class_matches englishLetters_class =
   (\<lambda>c. (0x0061 \<le> c \<and> c \<le> 0x007A) \<or> (0x0041 \<le> c \<and> c \<le> 0x005A))"
  by (rule ext) (simp add: englishLetters_class_def)

section \<open>Absent and empty text\<close>

text \<open>
  C1, as the code has it: the statistics are absent (\<open>null\<close>) exactly when the text is the
  empty string, and every other text has a record of counts. The empty string is also the
  value of \<open>pdfText\<close> after \<open>reset\<close>, so an empty text and no text are the same state.
\<close>

theorem stats_absent_iff_empty:
  "(stats t = None) = (t = []) \<and> stats (pdfText (reset s)) = None"
  by (simp add: stats_def reset_def Let_def)

text \<open>
  C1 as stated fails: for the empty text the result is the absent state and not a record
  of zeros.
\<close>

theorem stats_empty_text_absent:
  "stats [] = None \<and>
   stats [] \<noteq> Some \<lparr>chineseChars = 0, englishWords = 0, englishLetters = 0, numbers = 0,
                     chinesePunctuation = 0, englishPunctuation = 0, spaces = 0,
                     lineBreaks = 0, totalChars = 0, totalCharsNoSpace = 0\<rparr>"
  by (simp add: stats_def)

section \<open>Ideographs\<close>

text \<open>
  C2 says that \<open>chineseChars\<close> counts exactly the code points of the eight intervals. The
  class of the source does not: the Latin letter \<open>A\<close> (U+0041) is in none of the intervals
  and is counted, and the ideograph U+20000 is in the third interval and is not counted
  (its two surrogates U+D840 U+DC00 are outside the class). Both for the bare text and for
  the text that \<open>handleFile\<close> assembles from a document of one page with that text.
\<close>

theorem chineseChars_miscounts:
  "\<not> spec_ideograph 0x41 \<and>
   stats (utf16 [0x41]) =
     Some \<lparr>chineseChars = 1, englishWords = 1, englishLetters = 1, numbers = 0,
           chinesePunctuation = 0, englishPunctuation = 0, spaces = 0, lineBreaks = 0,
           totalChars = 1, totalCharsNoSpace = 1\<rparr> \<and>
   stats (page_loop [] [[TextItem (utf16 [0x41])]]) =
     Some \<lparr>chineseChars = 1, englishWords = 1, englishLetters = 1, numbers = 0,
           chinesePunctuation = 0, englishPunctuation = 0, spaces = 1, lineBreaks = 1,
           totalChars = 2, totalCharsNoSpace = 1\<rparr> \<and>
   spec_ideograph 0x20000 \<and>
   stats (utf16 [0x20000]) =
     Some \<lparr>chineseChars = 0, englishWords = 0, englishLetters = 0, numbers = 0,
           chinesePunctuation = 0, englishPunctuation = 0, spaces = 0, lineBreaks = 0,
           totalChars = 2, totalCharsNoSpace = 2\<rparr> \<and>
   stats (page_loop [] [[TextItem (utf16 [0x20000])]]) =
     Some \<lparr>chineseChars = 0, englishWords = 0, englishLetters = 0, numbers = 0,
           chinesePunctuation = 0, englishPunctuation = 0, spaces = 1, lineBreaks = 1,
           totalChars = 3, totalCharsNoSpace = 2\<rparr>"
  by (simp add: spec_ideograph_def utf16_def utf16_units_def pageText_def stats_nonempty
        class_defs)

section \<open>Total count\<close>

text \<open>
  C3 as stated fails: the text of the single code point U+20BB7, an ideograph of the third
  interval, has \<open>totalChars = 2\<close>; with the line feed that the page loop appends, two code
  points have \<open>totalChars = 3\<close>.
\<close>

theorem supplementary_code_point_two_units:
  "length [0x20BB7 :: nat] = 1 \<and> spec_ideograph 0x20BB7 \<and>
   stats (utf16 [0x20BB7]) =
     Some \<lparr>chineseChars = 0, englishWords = 0, englishLetters = 0, numbers = 0,
           chinesePunctuation = 0, englishPunctuation = 0, spaces = 0, lineBreaks = 0,
           totalChars = 2, totalCharsNoSpace = 2\<rparr> \<and>
   page_loop [] [[TextItem (utf16 [0x20BB7])]] = utf16 [0x20BB7, 0x0A] \<and>
   stats (utf16 [0x20BB7, 0x0A]) =
     Some \<lparr>chineseChars = 0, englishWords = 0, englishLetters = 0, numbers = 0,
           chinesePunctuation = 0, englishPunctuation = 0, spaces = 1, lineBreaks = 1,
           totalChars = 3, totalCharsNoSpace = 2\<rparr>"
  by (simp add: spec_ideograph_def utf16_def utf16_units_def pageText_def stats_nonempty
        class_defs)

text \<open>
  C3, as the code has it: \<open>totalChars\<close> is the number of UTF-16 code units of the text, that
  is one for every code point and one more for every code point from U+10000 on.
\<close>

theorem totalChars_code_units:
  assumes "stats (utf16 cps) = Some r"
  shows "totalChars r = length (utf16 cps) \<and>
         totalChars r = length cps + length (filter (\<lambda>cp. 0x10000 \<le> cp) cps)"
  using stats_SomeD(10) [OF assms] by (simp add: utf16_length)

text \<open>The text U+4E16 U+20BB7: two code points, three code units.\<close>

theorem totalChars_code_units_witness:
  "stats (utf16 [0x4E16, 0x20BB7]) =
     Some \<lparr>chineseChars = 1, englishWords = 0, englishLetters = 0, numbers = 0,
           chinesePunctuation = 0, englishPunctuation = 0, spaces = 0, lineBreaks = 0,
           totalChars = 3, totalCharsNoSpace = 3\<rparr> \<and>
   totalChars \<lparr>chineseChars = 1, englishWords = 0, englishLetters = 0, numbers = 0,
           chinesePunctuation = 0, englishPunctuation = 0, spaces = 0, lineBreaks = 0,
           totalChars = 3, totalCharsNoSpace = 3\<rparr> =
     length [0x4E16 :: nat, 0x20BB7] +
     length (filter (\<lambda>cp. 0x10000 \<le> cp) [0x4E16 :: nat, 0x20BB7])"
proof -
  have h: "stats (utf16 [0x4E16, 0x20BB7]) =
     Some \<lparr>chineseChars = 1, englishWords = 0, englishLetters = 0, numbers = 0,
           chinesePunctuation = 0, englishPunctuation = 0, spaces = 0, lineBreaks = 0,
           totalChars = 3, totalCharsNoSpace = 3\<rparr>"
    by (simp add: utf16_def utf16_units_def stats_nonempty class_defs)
  from totalChars_code_units [OF h] h show ?thesis by blast
qed

section \<open>The scenario text\<close>

text \<open>
  C4 as stated fails: for the text \<open>Hello\<close>, space, U+4E16 U+754C, ASCII comma, space,
  \<open>123!\<close> the counts are not the six of the claim. The ASCII comma and \<open>!\<close> are both English
  punctuation, and the text has no Chinese punctuation.
\<close>

theorem hello_text_stats:
  "stats hello_text =
     Some \<lparr>chineseChars = 10, englishWords = 1, englishLetters = 5, numbers = 3,
           chinesePunctuation = 0, englishPunctuation = 2, spaces = 2, lineBreaks = 0,
           totalChars = 14, totalCharsNoSpace = 12\<rparr> \<and>
   \<not> (chineseChars (the (stats hello_text)) = 2 \<and> englishWords (the (stats hello_text)) = 1 \<and>
      englishLetters (the (stats hello_text)) = 5 \<and> numbers (the (stats hello_text)) = 3 \<and>
      englishPunctuation (the (stats hello_text)) = 1 \<and>
      chinesePunctuation (the (stats hello_text)) = 1)"
  by (simp add: stats_hello_text)

text \<open>
  C4, as the code has it: for that text one English word, five English letters, three
  digits, two English punctuation characters and no Chinese punctuation.
\<close>

theorem hello_text_counts:
  "\<exists>r. stats hello_text = Some r \<and> englishWords r = 1 \<and> englishLetters r = 5 \<and>
       numbers r = 3 \<and> englishPunctuation r = 2 \<and> chinesePunctuation r = 0"
  by (simp add: stats_hello_text)

section \<open>Total count without white space\<close>

text \<open>
  C5: for every text with statistics (every text but the empty one), \<open>totalCharsNoSpace\<close> is
  the length of the text with the white space removed, and it is exactly \<open>totalChars\<close> minus
  \<open>spaces\<close>.
\<close>

theorem totalCharsNoSpace_is_total_minus_spaces:
  "(t \<noteq> [] \<longrightarrow> stats t \<noteq> None) \<and>
   (stats t = Some r \<longrightarrow>
      totalCharsNoSpace r = length (filter (\<lambda>c. \<not> class_matches spaces_class c) t) \<and>
      int (totalCharsNoSpace r) = int (totalChars r) - int (spaces r) \<and>
      totalCharsNoSpace r = totalChars r - spaces r \<and> spaces r \<le> totalChars r)"
proof (intro conjI impI)
  assume "t \<noteq> []" then show "stats t \<noteq> None" by (simp add: stats_nonempty)
next
  assume s: "stats t = Some r"
  note d = stats_SomeD [OF s]
  have sum: "totalCharsNoSpace r + spaces r = totalChars r"
    unfolding d replace_g_empty_def by (rule length_filter_complement)
  show "totalCharsNoSpace r = length (filter (\<lambda>c. \<not> class_matches spaces_class c) t)"
    by (simp add: d replace_g_empty_def)
  show "int (totalCharsNoSpace r) = int (totalChars r) - int (spaces r)" using sum by linarith
  show "totalCharsNoSpace r = totalChars r - spaces r" using sum by linarith
  show "spaces r \<le> totalChars r" using sum by linarith
qed

text \<open>The text \<open>a b\<close>: three code units, one of them white space.\<close>

theorem totalCharsNoSpace_is_total_minus_spaces_witness:
  "[0x0061, 0x0020, 0x0062] \<noteq> ([] :: js_string) \<and>
   stats [0x0061, 0x0020, 0x0062] =
     Some \<lparr>chineseChars = 2, englishWords = 2, englishLetters = 2, numbers = 0,
           chinesePunctuation = 0, englishPunctuation = 0, spaces = 1, lineBreaks = 0,
           totalChars = 3, totalCharsNoSpace = 2\<rparr> \<and>
   int (totalCharsNoSpace \<lparr>chineseChars = 2, englishWords = 2, englishLetters = 2, numbers = 0,
           chinesePunctuation = 0, englishPunctuation = 0, spaces = 1, lineBreaks = 0,
           totalChars = 3, totalCharsNoSpace = 2\<rparr>) = 3 - 1"
proof -
  have h: "stats [0x0061, 0x0020, 0x0062] =
     Some \<lparr>chineseChars = 2, englishWords = 2, englishLetters = 2, numbers = 0,
           chinesePunctuation = 0, englishPunctuation = 0, spaces = 1, lineBreaks = 0,
           totalChars = 3, totalCharsNoSpace = 2\<rparr>"
    by (simp add: stats_nonempty class_defs)
  from totalCharsNoSpace_is_total_minus_spaces
         [of "[0x0061, 0x0020, 0x0062]"
             "\<lparr>chineseChars = 2, englishWords = 2, englishLetters = 2, numbers = 0,
               chinesePunctuation = 0, englishPunctuation = 0, spaces = 1, lineBreaks = 0,
               totalChars = 3, totalCharsNoSpace = 2\<rparr>"] h
  show ?thesis by simp
qed

section \<open>Assembling the pages\<close>

text \<open>
  C6: the loop of \<open>handleFile\<close> joins the texts of the pages in their order and appends one
  line feed after every page, the last one too. No page gives the empty text, and the pages
  \<open>A\<close> and \<open>B\<close> give \<open>A\<close>, line feed, \<open>B\<close>, line feed. Every sequence of page texts is
  the page texts of some pages (one \<open>TextItem\<close> each).
\<close>

theorem page_loop_joins_pages:
  "page_loop [] pages = concat (map (\<lambda>items. pageText items @ [0x000A]) pages) \<and>
   page_loop [] (map (\<lambda>txt. [TextItem txt]) texts) = concat (map (\<lambda>txt. txt @ [0x000A]) texts) \<and>
   page_loop [] [] = [] \<and>
   page_loop [] [[TextItem [0x0041]], [TextItem [0x0042]]] = [0x0041, 0x000A, 0x0042, 0x000A]"
  by (simp add: page_loop_acc pageText_def comp_def)

section \<open>Punctuation\<close>

text \<open>
  C7 as stated fails: the left curly quotation mark U+201C is in the set of the claim and is
  not counted as Chinese punctuation, and the ASCII quotation mark U+0022 is not in the set
  of the claim and is counted as Chinese punctuation (and as English punctuation).
\<close>

theorem quotes_in_chinese_punctuation:
  "0x201C \<in> set spec_chinese_punctuation \<and>
   stats [0x201C] =
     Some \<lparr>chineseChars = 1, englishWords = 0, englishLetters = 0, numbers = 0,
           chinesePunctuation = 0, englishPunctuation = 0, spaces = 0, lineBreaks = 0,
           totalChars = 1, totalCharsNoSpace = 1\<rparr> \<and>
   0x0022 \<notin> set spec_chinese_punctuation \<and>
   stats [0x0022] =
     Some \<lparr>chineseChars = 0, englishWords = 0, englishLetters = 0, numbers = 0,
           chinesePunctuation = 1, englishPunctuation = 1, spaces = 0, lineBreaks = 0,
           totalChars = 1, totalCharsNoSpace = 1\<rparr>"
  by (simp add: spec_chinese_punctuation_def stats_nonempty class_defs)

text \<open>
  C7, as the code has it: \<open>chinesePunctuation\<close> counts exactly the code units of the
  enumerated set whose quotes are the ASCII quotation mark and apostrophe, and
  \<open>englishPunctuation\<close> counts exactly the code units of the 32 ASCII punctuation characters.
\<close>

theorem punctuation_counts_enumerated:
  assumes "stats t = Some r"
  shows "chinesePunctuation r = length (filter (\<lambda>c. c \<in> set chinese_punctuation_units) t) \<and>
         englishPunctuation r = length (filter (\<lambda>c. c \<in> set english_punctuation_units) t)"
proof -
  have c: "class_matches chinesePunctuation_class = (\<lambda>c. c \<in> set chinese_punctuation_units)"
    by (rule ext) (rule chinesePunctuation_class_units)
  have e: "class_matches englishPunctuation_class = (\<lambda>c. c \<in> set english_punctuation_units)"
    by (rule ext) (rule englishPunctuation_class_units)
  from stats_SomeD(6,7) [OF assms] show ?thesis by (simp only: c e)
qed

text \<open>The text of the fullwidth comma U+FF0C, an ASCII apostrophe and an ASCII \<open>!\<close>.\<close>

theorem punctuation_counts_enumerated_witness:
  "stats [0xFF0C, 0x0027, 0x0021] =
     Some \<lparr>chineseChars = 0, englishWords = 0, englishLetters = 0, numbers = 0,
           chinesePunctuation = 2, englishPunctuation = 2, spaces = 0, lineBreaks = 0,
           totalChars = 3, totalCharsNoSpace = 3\<rparr> \<and>
   length (filter (\<lambda>c. c \<in> set chinese_punctuation_units) [0xFF0C, 0x0027, 0x0021]) = 2 \<and>
   length (filter (\<lambda>c. c \<in> set english_punctuation_units) [0xFF0C, 0x0027, 0x0021]) = 2"
proof -
  have h: "stats [0xFF0C, 0x0027, 0x0021] =
     Some \<lparr>chineseChars = 0, englishWords = 0, englishLetters = 0, numbers = 0,
           chinesePunctuation = 2, englishPunctuation = 2, spaces = 0, lineBreaks = 0,
           totalChars = 3, totalCharsNoSpace = 3\<rparr>"
    by (simp add: stats_nonempty class_defs)
  from punctuation_counts_enumerated [OF h] h show ?thesis by simp
qed

section \<open>Line breaks\<close>

text \<open>
  C8: every text but the empty one has a record, in which \<open>lineBreaks\<close> is the number of
  line feeds U+000A of the text and \<open>spaces\<close> is the number of its code units of the class
  \<^verbatim>\<open>\s\<close>; \<open>lineBreaks\<close> is at most \<open>spaces\<close>. The vertical tab, the form feed, the carriage
  return and the separators U+2028 and U+2029 are no line breaks and are white space: their
  occurrences are counted in \<open>spaces\<close> on top of the line breaks. The text \<open>a\<close>, tab, \<open>b\<close>,
  line feed, \<open>c\<close> has \<open>spaces = 2\<close> and \<open>lineBreaks = 1\<close>.
\<close>

theorem lineBreaks_counts_line_feeds:
  "(t \<noteq> [] \<longrightarrow>
      (\<exists>r. stats t = Some r \<and>
           lineBreaks r = count_list t 0x000A \<and>
           spaces r = length (filter (class_matches spaces_class) t) \<and>
           lineBreaks r \<le> spaces r \<and>
           lineBreaks r + count_list t 0x000B + count_list t 0x000C + count_list t 0x000D +
             count_list t 0x2028 + count_list t 0x2029 \<le> spaces r)) \<and>
   (stats t = Some r \<longrightarrow>
      lineBreaks r = count_list t 0x000A \<and>
      spaces r = length (filter (class_matches spaces_class) t) \<and>
      lineBreaks r \<le> spaces r \<and>
      lineBreaks r + count_list t 0x000B + count_list t 0x000C + count_list t 0x000D +
        count_list t 0x2028 + count_list t 0x2029 \<le> spaces r) \<and>
   class_matches spaces_class 0x000A \<and> class_matches spaces_class 0x000B \<and>
   class_matches spaces_class 0x000C \<and> class_matches spaces_class 0x000D \<and>
   class_matches spaces_class 0x2028 \<and> class_matches spaces_class 0x2029 \<and>
   stats [0x0061, 0x0009, 0x0062, 0x000A, 0x0063] =
     Some \<lparr>chineseChars = 3, englishWords = 3, englishLetters = 3, numbers = 0,
           chinesePunctuation = 0, englishPunctuation = 0, spaces = 2, lineBreaks = 1,
           totalChars = 5, totalCharsNoSpace = 3\<rparr> \<and>
   stats [0x000D, 0x2028, 0x2029] =
     Some \<lparr>chineseChars = 2, englishWords = 0, englishLetters = 0, numbers = 0,
           chinesePunctuation = 0, englishPunctuation = 0, spaces = 3, lineBreaks = 0,
           totalChars = 3, totalCharsNoSpace = 0\<rparr>"
proof -
  have gen: "lineBreaks r' = count_list t 0x000A \<and>
      spaces r' = length (filter (class_matches spaces_class) t) \<and>
      lineBreaks r' \<le> spaces r' \<and>
      lineBreaks r' + count_list t 0x000B + count_list t 0x000C + count_list t 0x000D +
        count_list t 0x2028 + count_list t 0x2029 \<le> spaces r'"
    if s: "stats t = Some r'" for r'
  proof -
    note d = stats_SomeD [OF s]
    have lb: "lineBreaks r' = count_list t 0x000A"
      by (simp only: d lineBreaks_count_list)
    have sp: "spaces r' = length (filter (class_matches spaces_class) t)" by (rule d)
    from line_terminators_le_spaces [of t] lb sp show ?thesis by simp
  qed
  have ex: "\<exists>r'. stats t = Some r'" if "t \<noteq> []"
    using that by (simp add: stats_nonempty)
  have a: "t \<noteq> [] \<longrightarrow>
      (\<exists>r. stats t = Some r \<and>
           lineBreaks r = count_list t 0x000A \<and>
           spaces r = length (filter (class_matches spaces_class) t) \<and>
           lineBreaks r \<le> spaces r \<and>
           lineBreaks r + count_list t 0x000B + count_list t 0x000C + count_list t 0x000D +
             count_list t 0x2028 + count_list t 0x2029 \<le> spaces r)"
    using ex gen by blast
  have b: "stats t = Some r \<longrightarrow>
      lineBreaks r = count_list t 0x000A \<and>
      spaces r = length (filter (class_matches spaces_class) t) \<and>
      lineBreaks r \<le> spaces r \<and>
      lineBreaks r + count_list t 0x000B + count_list t 0x000C + count_list t 0x000D +
        count_list t 0x2028 + count_list t 0x2029 \<le> spaces r"
    using gen by blast
  have c: "class_matches spaces_class 0x000A \<and> class_matches spaces_class 0x000B \<and>
   class_matches spaces_class 0x000C \<and> class_matches spaces_class 0x000D \<and>
   class_matches spaces_class 0x2028 \<and> class_matches spaces_class 0x2029"
    by (simp add: spaces_class_def)
  have e1: "stats [0x0061, 0x0009, 0x0062, 0x000A, 0x0063] =
     Some \<lparr>chineseChars = 3, englishWords = 3, englishLetters = 3, numbers = 0,
           chinesePunctuation = 0, englishPunctuation = 0, spaces = 2, lineBreaks = 1,
           totalChars = 5, totalCharsNoSpace = 3\<rparr>"
    by (simp add: stats_nonempty class_defs)
  have e2: "stats [0x000D, 0x2028, 0x2029] =
     Some \<lparr>chineseChars = 2, englishWords = 0, englishLetters = 0, numbers = 0,
           chinesePunctuation = 0, englishPunctuation = 0, spaces = 3, lineBreaks = 0,
           totalChars = 3, totalCharsNoSpace = 0\<rparr>"
    by (simp add: stats_nonempty class_defs)
  from a b c e1 e2 show ?thesis by (intro conjI) (erule conjunct1 | erule conjunct2 | assumption | simp)+
qed

text \<open>The text line feed, carriage return, line feed, space.\<close>

theorem lineBreaks_counts_line_feeds_witness:
  "[0x000A, 0x000D, 0x000A, 0x0020] \<noteq> ([] :: js_string) \<and>
   stats [0x000A, 0x000D, 0x000A, 0x0020] =
     Some \<lparr>chineseChars = 0, englishWords = 0, englishLetters = 0, numbers = 0,
           chinesePunctuation = 0, englishPunctuation = 0, spaces = 4, lineBreaks = 2,
           totalChars = 4, totalCharsNoSpace = 0\<rparr> \<and>
   count_list [0x000A, 0x000D, 0x000A, 0x0020 :: code_unit] 0x000A = 2 \<and>
   count_list [0x000A, 0x000D, 0x000A, 0x0020 :: code_unit] 0x000D = 1 \<and>
   length (filter (class_matches spaces_class) [0x000A, 0x000D, 0x000A, 0x0020]) = 4"
proof -
  have h: "stats [0x000A, 0x000D, 0x000A, 0x0020] =
     Some \<lparr>chineseChars = 0, englishWords = 0, englishLetters = 0, numbers = 0,
           chinesePunctuation = 0, englishPunctuation = 0, spaces = 4, lineBreaks = 2,
           totalChars = 4, totalCharsNoSpace = 0\<rparr>"
    by (simp add: stats_nonempty class_defs)
  from lineBreaks_counts_line_feeds
         [of "[0x000A, 0x000D, 0x000A, 0x0020]"
             "\<lparr>chineseChars = 0, englishWords = 0, englishLetters = 0, numbers = 0,
               chinesePunctuation = 0, englishPunctuation = 0, spaces = 4, lineBreaks = 2,
               totalChars = 4, totalCharsNoSpace = 0\<rparr>"] h
  show ?thesis by (simp add: spaces_class_def)
qed

section \<open>Words and letters\<close>

text \<open>
  C9: every text but the empty one has a record, in which \<open>englishWords\<close> is the number of
  matches of \<open>[a-zA-Z]+\<close>, that is the number of maximal runs of Latin letters, and
  \<open>englishLetters\<close> is the number of code units in \<open>a\<close> to \<open>z\<close> or \<open>A\<close> to \<open>Z\<close>. The matches
  are not empty and together hold exactly the letters of the text, in order. \<open>englishWords\<close>
  is at most \<open>englishLetters\<close>, and the two are equal if and only if every match has length 1.
\<close>

theorem englishWords_le_englishLetters:
  "(t \<noteq> [] \<longrightarrow>
      (\<exists>r. stats t = Some r \<and>
           englishWords r = length (or_empty (match_plus_g englishLetters_class t)) \<and>
           englishWords r = count_runs englishLetters_class False t \<and>
           englishLetters r =
             length (filter (\<lambda>c. (0x0061 \<le> c \<and> c \<le> 0x007A) \<or> (0x0041 \<le> c \<and> c \<le> 0x005A)) t) \<and>
           englishWords r \<le> englishLetters r \<and>
           ((englishWords r = englishLetters r) =
            (\<forall>w\<in>set (or_empty (match_plus_g englishLetters_class t)). length w = 1)))) \<and>
   (stats t = Some r \<longrightarrow>
      englishWords r = length (or_empty (match_plus_g englishLetters_class t)) \<and>
      englishWords r = count_runs englishLetters_class False t \<and>
      englishLetters r =
        length (filter (\<lambda>c. (0x0061 \<le> c \<and> c \<le> 0x007A) \<or> (0x0041 \<le> c \<and> c \<le> 0x005A)) t) \<and>
      englishWords r \<le> englishLetters r \<and>
      ((englishWords r = englishLetters r) =
       (\<forall>w\<in>set (or_empty (match_plus_g englishLetters_class t)). length w = 1))) \<and>
   concat (or_empty (match_plus_g englishLetters_class t)) =
     filter (\<lambda>c. (0x0061 \<le> c \<and> c \<le> 0x007A) \<or> (0x0041 \<le> c \<and> c \<le> 0x005A)) t \<and>
   [] \<notin> set (or_empty (match_plus_g englishLetters_class t))"
proof -
  let ?letter = "\<lambda>c :: code_unit. (0x0061 \<le> c \<and> c \<le> 0x007A) \<or> (0x0041 \<le> c \<and> c \<le> 0x005A)"
  let ?runs = "or_empty (match_plus_g englishLetters_class t)"
  have gen: "englishWords r' = length ?runs \<and>
      englishWords r' = count_runs englishLetters_class False t \<and>
      englishLetters r' = length (filter ?letter t) \<and>
      englishWords r' \<le> englishLetters r' \<and>
      ((englishWords r' = englishLetters r') = (\<forall>w\<in>set ?runs. length w = 1))"
    if s: "stats t = Some r'" for r'
  proof -
    have w: "englishWords r' = length ?runs"
      using stats_SomeD(3) [OF s] by (simp only: or_empty_match_plus_g)
    have l: "englishLetters r' = length (filter ?letter t)"
      using stats_SomeD(4) [OF s] by (simp only: englishLetters_class_units)
    have c: "length ?runs = count_runs englishLetters_class False t"
      by (simp only: or_empty_match_plus_g scan_plus_count_runs)
    have wl: "length ?runs \<le> length (filter ?letter t) \<and>
      ((length ?runs = length (filter ?letter t)) = (\<forall>w\<in>set ?runs. length w = 1))"
      using words_le_letters [of englishLetters_class t]
      by (simp only: or_empty_match_plus_g englishLetters_class_units)
    from w l c wl show ?thesis by simp
  qed
  have ex: "\<exists>r'. stats t = Some r'" if "t \<noteq> []"
    using that by (simp add: stats_nonempty)
  have a: "t \<noteq> [] \<longrightarrow>
      (\<exists>r. stats t = Some r \<and>
           englishWords r = length ?runs \<and>
           englishWords r = count_runs englishLetters_class False t \<and>
           englishLetters r = length (filter ?letter t) \<and>
           englishWords r \<le> englishLetters r \<and>
           ((englishWords r = englishLetters r) = (\<forall>w\<in>set ?runs. length w = 1)))"
    using ex gen by blast
  have b: "stats t = Some r \<longrightarrow>
      englishWords r = length ?runs \<and>
      englishWords r = count_runs englishLetters_class False t \<and>
      englishLetters r = length (filter ?letter t) \<and>
      englishWords r \<le> englishLetters r \<and>
      ((englishWords r = englishLetters r) = (\<forall>w\<in>set ?runs. length w = 1))"
    using gen by blast
  have c: "concat ?runs = filter ?letter t"
    by (simp only: or_empty_match_plus_g scan_plus_concat englishLetters_class_units)
  have d: "[] \<notin> set ?runs"
    using scan_plus_nonempty [of "[]" englishLetters_class t]
    by (auto simp: or_empty_match_plus_g)
  from a b c d show ?thesis by blast
qed

text \<open>
  The text \<open>ab c\<close> has two words and three letters, and its first word has length 2.
\<close>

theorem englishWords_le_englishLetters_witness:
  "[0x0061, 0x0062, 0x0020, 0x0063] \<noteq> ([] :: js_string) \<and>
   stats [0x0061, 0x0062, 0x0020, 0x0063] =
     Some \<lparr>chineseChars = 3, englishWords = 2, englishLetters = 3, numbers = 0,
           chinesePunctuation = 0, englishPunctuation = 0, spaces = 1, lineBreaks = 0,
           totalChars = 4, totalCharsNoSpace = 3\<rparr> \<and>
   count_runs englishLetters_class False [0x0061, 0x0062, 0x0020, 0x0063] = 2 \<and>
   \<not> (\<forall>w\<in>set (or_empty (match_plus_g englishLetters_class [0x0061, 0x0062, 0x0020, 0x0063])).
        length w = 1)"
proof -
  have h: "stats [0x0061, 0x0062, 0x0020, 0x0063] =
     Some \<lparr>chineseChars = 3, englishWords = 2, englishLetters = 3, numbers = 0,
           chinesePunctuation = 0, englishPunctuation = 0, spaces = 1, lineBreaks = 0,
           totalChars = 4, totalCharsNoSpace = 3\<rparr>"
    by (simp add: stats_nonempty class_defs)
  from englishWords_le_englishLetters
         [of "[0x0061, 0x0062, 0x0020, 0x0063]"
             "\<lparr>chineseChars = 3, englishWords = 2, englishLetters = 3, numbers = 0,
               chinesePunctuation = 0, englishPunctuation = 0, spaces = 1, lineBreaks = 0,
               totalChars = 4, totalCharsNoSpace = 3\<rparr>"] h
  show ?thesis by simp
qed

section \<open>Rejecting a file that is not a PDF\<close>

text \<open>
  C10: for a file whose type is not \<open>application/pdf\<close>, \<open>handleFile\<close> sets the error message
  and nothing else: the file name, the text and so the statistics stay as they were.
\<close>

theorem handleFile_rejects_other_types:
  assumes "file_type f \<noteq> application_pdf"
  shows "handleFile (Some f) pdfjs s = s\<lparr>errorMessage := please_upload_pdf\<rparr> \<and>
         fileName (handleFile (Some f) pdfjs s) = fileName s \<and>
         pdfText (handleFile (Some f) pdfjs s) = pdfText s \<and>
         stats (pdfText (handleFile (Some f) pdfjs s)) = stats (pdfText s)"
  using assms by (simp add: handleFile_def)

text \<open>
  A file of type \<open>image/png\<close> named \<open>b\<close>, submitted while the file \<open>a\<close> with the text \<open>A\<close>, line
  feed is shown: name and text stay.
\<close>

theorem handleFile_rejects_other_types_witness:
  "[0x0069, 0x006D, 0x0061, 0x0067, 0x0065, 0x002F, 0x0070, 0x006E, 0x0067] \<noteq> application_pdf \<and>
   handleFile
     (Some \<lparr>file_type = [0x0069, 0x006D, 0x0061, 0x0067, 0x0065, 0x002F, 0x0070, 0x006E, 0x0067],
            file_name = [0x0062]\<rparr>)
     (Inr [[TextItem [0x0042]]])
     \<lparr>isDragging = False, isLoading = False, fileName = [0x0061],
      pdfText = [0x0041, 0x000A], errorMessage = []\<rparr> =
   \<lparr>isDragging = False, isLoading = False, fileName = [0x0061],
    pdfText = [0x0041, 0x000A], errorMessage = please_upload_pdf\<rparr>"
proof -
  have h: "file_type \<lparr>file_type = [0x0069, 0x006D, 0x0061, 0x0067, 0x0065, 0x002F, 0x0070, 0x006E, 0x0067],
            file_name = [0x0062]\<rparr> \<noteq> application_pdf"
    by (simp add: application_pdf_def)
  from handleFile_rejects_other_types [OF h] h show ?thesis by simp
qed

end
